theory Spec2Isabelle
  imports Complex_Main
begin

section \<open>Python values the script relies on\<close>

text \<open>
  The script \<^verbatim>\<open>convert_daily_data.py\<close> is Python 2 over numpy. It catches no
  exception, so every \<^verbatim>\<open>raise\<close> and every failing library call ends the
  run; a function of the model returns \<open>Inl e\<close> for the exception and \<open>Inr v\<close> for
  the value. \<open>UnboundLocalError\<close> is what Python raises when a local variable is read
  before it was assigned; it is a subclass of \<open>NameError\<close>.
\<close>

datatype py_error = IOError | IndexError | ValueError | AttributeError | UnboundLocalError

definition is_NameError :: "py_error \<Rightarrow> bool" where
  "is_NameError e = (e = UnboundLocalError)"

definition bind_err :: "py_error + 'a \<Rightarrow> ('a \<Rightarrow> py_error + 'b) \<Rightarrow> py_error + 'b" where
  "bind_err m f = (case m of Inl e \<Rightarrow> Inl e | Inr v \<Rightarrow> f v)"

text \<open>A list comprehension whose element expression can raise: the first failure wins.\<close>

fun comprehend :: "('a \<Rightarrow> py_error + 'b) \<Rightarrow> 'a list \<Rightarrow> py_error + 'b list" where
  "comprehend f [] = Inr []"
| "comprehend f (x # xs) =
     (case f x of
        Inl e \<Rightarrow> Inl e
      | Inr y \<Rightarrow> (case comprehend f xs of Inl e \<Rightarrow> Inl e | Inr ys \<Rightarrow> Inr (y # ys)))"

text \<open>\<^verbatim>\<open>xs[i]\<close> for an index that is not negative.\<close>

definition py_get :: "'a list \<Rightarrow> nat \<Rightarrow> py_error + 'a" where
  "py_get xs i = (if i < length xs then Inr (xs ! i) else Inl IndexError)"

text \<open>\<^verbatim>\<open>xs[i]\<close> and \<^verbatim>\<open>xs[i:]\<close> for any integer: a negative index counts from the end.\<close>

definition py_index :: "'a list \<Rightarrow> int \<Rightarrow> py_error + 'a" where
  "py_index xs i =
     (if 0 \<le> i then py_get xs (nat i)
      else if - i \<le> int (length xs) then Inr (xs ! nat (int (length xs) + i))
      else Inl IndexError)"

definition py_slice_from :: "'a list \<Rightarrow> int \<Rightarrow> 'a list" where
  "py_slice_from xs i = drop (nat (if i < 0 then int (length xs) + i else i)) xs"

subsection \<open>Strings\<close>

definition tab :: string where
  "tab = [CHR 0x09]"

text \<open>The characters \<^verbatim>\<open>str.strip()\<close> and \<^verbatim>\<open>str.split()\<close> take for white space.\<close>

definition py_isspace :: "char \<Rightarrow> bool" where
  "py_isspace c = (c \<in> set [CHR '' '', CHR 0x09, CHR 0x0A, CHR 0x0B, CHR 0x0C, CHR 0x0D])"

definition py_strip :: "string \<Rightarrow> string" where
  "py_strip s = rev (dropWhile py_isspace (rev (dropWhile py_isspace s)))"

text \<open>
  \<^verbatim>\<open>s.split(sep)\<close> for a separator that is not empty: \<open>find_sep\<close> cuts \<open>s\<close> at the
  leftmost occurrence of \<open>sep\<close>, and \<open>split_sep\<close> goes on in what follows it. Every
  occurrence splits, so empty fields are kept. Python raises ValueError for the empty
  separator; the caller that can pass one (\<open>load_text\<close>) tests for it.
\<close>

fun find_sep :: "string \<Rightarrow> string \<Rightarrow> (string \<times> string) option" where
  "find_sep sep [] = None"
| "find_sep sep (c # cs) =
     (if take (length sep) (c # cs) = sep then Some ([], drop (length sep) (c # cs))
      else (case find_sep sep cs of
              None \<Rightarrow> None
            | Some (before, rest) \<Rightarrow> Some (c # before, rest)))"

lemma find_sep_shorter:
  "find_sep sep s = Some (before, rest) \<Longrightarrow> sep \<noteq> [] \<Longrightarrow> length rest < length s"
proof (induction s arbitrary: before)
  case Nil
  then show ?case by simp
next
  case (Cons c cs)
  show ?case
  proof (cases "take (length sep) (c # cs) = sep")
    case True
    with Cons.prems show ?thesis by (cases sep) auto
  next
    case False
    with Cons.prems obtain b where "find_sep sep cs = Some (b, rest)"
      by (auto split: option.splits)
    with Cons.IH Cons.prems(2) show ?thesis by fastforce
  qed
qed

function split_sep :: "string \<Rightarrow> string \<Rightarrow> string list" where
  "split_sep sep s =
     (if sep = [] then [s]
      else (case find_sep sep s of
              None \<Rightarrow> [s]
            | Some (before, rest) \<Rightarrow> before # split_sep sep rest))"
  by pat_completeness auto
termination
  by (relation "measure (\<lambda>(sep, s). length s)") (auto dest: find_sep_shorter)

declare split_sep.simps [simp del]

text \<open>\<^verbatim>\<open>s.split()\<close>: the fields between runs of white space, none of them empty.\<close>

fun split_ws_from :: "string \<Rightarrow> string \<Rightarrow> string list" where
  "split_ws_from cur [] = (if cur = [] then [] else [rev cur])"
| "split_ws_from cur (c # cs) =
     (if py_isspace c
      then (if cur = [] then split_ws_from [] cs else rev cur # split_ws_from [] cs)
      else split_ws_from (c # cur) cs)"

definition py_split_ws :: "string \<Rightarrow> string list" where
  "py_split_ws s = split_ws_from [] s"

section \<open>The date extractor: \<^verbatim>\<open>get_dates_yahoo\<close>\<close>

text \<open>
  A row is what \<open>load_text\<close> made of one line: its list of fields. Lines 50 to 52 read
  field 0 of the row, cut it at the tabs, and take part 0 for the date and part 4 for the
  value; each of the three comprehensions raises IndexError at the first row that lacks
  what it reads.
\<close>

definition date_key :: "string \<Rightarrow> string" where
  \<comment> \<open>lines 55 to 59: \<^verbatim>\<open>whole\<close> is the parts between the hyphens, joined; then \<^verbatim>\<open>whole[1:9]\<close>\<close>
  "date_key yd = (let whole = foldl (@) [] (split_sep ''-'' yd) in take 8 (drop 1 whole))"

definition yahoo_parse :: "string list list \<Rightarrow> py_error + (string list \<times> string list)" where
  "yahoo_parse yahoo_list =
     bind_err (comprehend (\<lambda>item. bind_err (py_get item 0) (\<lambda>f. Inr (split_sep tab f))) yahoo_list)
       (\<lambda>list_of_lists.
     bind_err (comprehend (\<lambda>item. py_get item 0) list_of_lists) (\<lambda>dates.
     bind_err (comprehend (\<lambda>item. py_get item 4) list_of_lists) (\<lambda>returns.
     Inr (map date_key dates, returns))))"

text \<open>
  Lines 60 to 67. The branch for \<^verbatim>\<open>"reverse"\<close> returns \<^verbatim>\<open>yahoo_returns\<close>, a
  name that only the branch for \<^verbatim>\<open>"chronological"\<close> assigns: reading it raises
  UnboundLocalError.
\<close>

definition get_dates_yahoo ::
  "string list list \<Rightarrow> string \<Rightarrow> py_error + (string list \<times> string list)" where
  "get_dates_yahoo yahoo_list order =
     bind_err (yahoo_parse yahoo_list) (\<lambda>(yahoo_dates, returns).
       if order = ''chronological'' then Inr (rev yahoo_dates, rev returns)
       else if order = ''reverse'' then Inl UnboundLocalError
       else Inl ValueError)"

text \<open>
  The vendor's format, as far as the function reads it: the row has a field 0, and that
  field has at least five parts between tabs.
\<close>

definition yahoo_row :: "string list \<Rightarrow> bool" where
  "yahoo_row item = (case item of [] \<Rightarrow> False | f # _ \<Rightarrow> 5 \<le> length (split_sep tab f))"

definition row_date :: "string list \<Rightarrow> string" where
  "row_date item = hd (split_sep tab (hd item))"

definition row_value :: "string list \<Rightarrow> string" where
  "row_value item = split_sep tab (hd item) ! 4"

section \<open>Numbers\<close>

text \<open>
  A numpy \<^verbatim>\<open>float64\<close> is modelled as a real number: the model computes exactly
  where the script rounds, and it has no \<^verbatim>\<open>inf\<close> and no \<^verbatim>\<open>nan\<close>
  (numpy divides by zero with a warning and no exception; the model's quotient there is
  HOL's \<open>x / 0 = 0\<close>). The conversion of a string to a float (\<^verbatim>\<open>float(s)\<close>,
  \<^verbatim>\<open>astype(float)\<close>, storing a string into a float array) is a parameter
  \<open>to_float\<close> of the model: \<open>None\<close> is the ValueError of a string that is no number.

  \<open>float_of_decimal\<close> is that conversion for plain decimal notation (white space around
  it, a sign, digits with at most one point); it is used where a theorem needs a concrete
  conversion, on such strings and on strings Python rejects as well.
\<close>

definition is_digit :: "char \<Rightarrow> bool" where
  "is_digit c = (48 \<le> (of_char c :: nat) \<and> (of_char c :: nat) \<le> 57)"

definition digits_value :: "string \<Rightarrow> nat" where
  "digits_value s = foldl (\<lambda>n c. 10 * n + (of_char c - 48)) 0 s"

definition unsigned_decimal :: "string \<Rightarrow> real option" where
  "unsigned_decimal s =
     (let whole = takeWhile is_digit s; rest = dropWhile is_digit s
      in if rest = [] then (if whole = [] then None else Some (of_nat (digits_value whole)))
         else if hd rest = CHR ''.'' \<and> list_all is_digit (tl rest) \<and> (whole \<noteq> [] \<or> tl rest \<noteq> [])
         then Some (of_nat (digits_value whole) + of_nat (digits_value (tl rest)) / 10 ^ length (tl rest))
         else None)"

definition float_of_decimal :: "string \<Rightarrow> real option" where
  "float_of_decimal s0 =
     (case py_strip s0 of
        [] \<Rightarrow> None
      | c # cs \<Rightarrow>
          if c = CHR ''-'' then map_option uminus (unsigned_decimal cs)
          else if c = CHR ''+'' then unsigned_decimal cs
          else unsigned_decimal (c # cs))"

section \<open>Prices to returns: \<^verbatim>\<open>prices_to_returns\<close>\<close>

text \<open>
  \<open>conv\<close> is what \<^verbatim>\<open>astype(float)\<close> does to one element: \<open>Some\<close> for a sequence
  of numbers, \<open>to_float\<close> for the strings the pipeline passes.
\<close>

definition astype_float :: "('a \<Rightarrow> real option) \<Rightarrow> 'a list \<Rightarrow> py_error + real list" where
  "astype_float conv p =
     comprehend (\<lambda>x. case conv x of None \<Rightarrow> Inl ValueError | Some v \<Rightarrow> Inr v) p"

text \<open>
  Line 18 allocates \<^verbatim>\<open>np.zeros((m-1,1))\<close>: for \<open>m = 0\<close> the dimension is \<open>-1\<close>
  and numpy raises ValueError. The loop of lines 19 and 20 stores into \<^verbatim>\<open>r[i]\<close> for
  \<open>i < m - 1\<close>, reading \<^verbatim>\<open>p[i]\<close> and \<^verbatim>\<open>p[i+1]\<close>, all in range. The result
  is a column of \<open>m - 1\<close> rows, held here as the list of its rows' values.
\<close>

definition prices_to_returns :: "('a \<Rightarrow> real option) \<Rightarrow> 'a list \<Rightarrow> py_error + real list" where
  "prices_to_returns conv p0 =
     bind_err (astype_float conv p0) (\<lambda>p.
       let m = length p in
       if m = 0 then Inl ValueError
       else Inr (foldl (\<lambda>r i. r[i := (p ! (i + 1) - p ! i) / p ! i])
                   (replicate (m - 1) 0) [0..<m - 1]))"

section \<open>The date matcher: \<^verbatim>\<open>match_data\<close>\<close>

text \<open>A loop whose body can raise: the state after the last round, or the first error.\<close>

fun fold_err :: "('s \<Rightarrow> 'a \<Rightarrow> py_error + 's) \<Rightarrow> 's \<Rightarrow> 'a list \<Rightarrow> py_error + 's" where
  "fold_err f s [] = Inr s"
| "fold_err f s (x # xs) = (case f s x of Inl e \<Rightarrow> Inl e | Inr s' \<Rightarrow> fold_err f s' xs)"

text \<open>
  \<^verbatim>\<open>arr[i] = x\<close> on a one-dimensional float array: IndexError when \<open>i\<close> is out of
  range, ValueError when \<open>x\<close> does not convert to a float.
\<close>

definition np_setitem ::
  "('v \<Rightarrow> real option) \<Rightarrow> real list \<Rightarrow> nat \<Rightarrow> 'v \<Rightarrow> py_error + real list" where
  "np_setitem conv arr i x =
     (if i < length arr
      then (case conv x of None \<Rightarrow> Inl ValueError | Some v \<Rightarrow> Inr (arr[i := v]))
      else Inl IndexError)"

text \<open>
  Lines 90 and 91, which lines 94 and 95 repeat: the value and the date at the source
  position \<^verbatim>\<open>daily_indices[j]\<close> go to position \<open>i\<close> of the two result arrays. Both
  arrays are float arrays (line 87 makes the date array a copy of the value array), so
  the date string is converted on the way in.
\<close>

definition assign_matched ::
  "(string \<Rightarrow> real option) \<Rightarrow> ('v \<Rightarrow> real option) \<Rightarrow> string list \<Rightarrow> 'v list \<Rightarrow> nat list \<Rightarrow>
     nat \<Rightarrow> nat \<Rightarrow> real list \<times> real list \<Rightarrow> py_error + (real list \<times> real list)" where
  "assign_matched to_float conv daily_dates daily_returns daily_indices i j arrays =
     (case arrays of (daily_matched_returns, daily_matched_dates) \<Rightarrow>
        bind_err (py_get daily_indices j) (\<lambda>k.
        bind_err (py_get daily_returns k) (\<lambda>v.
        bind_err (np_setitem conv daily_matched_returns i v) (\<lambda>returns'.
        bind_err (py_get daily_indices j) (\<lambda>k'.
        bind_err (py_get daily_dates k') (\<lambda>d.
        bind_err (np_setitem to_float daily_matched_dates i d) (\<lambda>dates'.
        Inr (returns', dates'))))))))"

text \<open>One round of the loop of lines 88 to 95; the state is \<open>j\<close> and the two arrays.\<close>

definition match_step ::
  "(string \<Rightarrow> real option) \<Rightarrow> ('v \<Rightarrow> real option) \<Rightarrow> string list \<Rightarrow> 'v list \<Rightarrow> string list \<Rightarrow>
     nat list \<Rightarrow> string list \<Rightarrow> nat \<times> real list \<times> real list \<Rightarrow> nat \<Rightarrow>
     py_error + (nat \<times> real list \<times> real list)" where
  "match_step to_float conv daily_dates daily_returns target_dates daily_indices misses st i =
     (case st of (j, arrays) \<Rightarrow>
        if target_dates ! i \<notin> set misses
        then bind_err (assign_matched to_float conv daily_dates daily_returns daily_indices i j arrays)
               (\<lambda>arrays'. Inr (j + 1, arrays'))
        else bind_err (assign_matched to_float conv daily_dates daily_returns daily_indices i j arrays)
               (\<lambda>arrays'. Inr (j, arrays')))"

text \<open>
  Lines 79 to 96. The result arrays are allocated with one slot for each source position
  whose date is among the target dates (line 80), and the loop stores at the positions of
  the target list. \<open>conv\<close> converts a source value to a float when it is stored.
\<close>

definition daily_indices_of :: "string list \<Rightarrow> string list \<Rightarrow> nat list" where
  "daily_indices_of daily_dates target_dates =
     map fst (filter (\<lambda>(idx, dd). dd \<in> set target_dates)
                (zip [0..<length daily_dates] daily_dates))"

definition misses_of :: "string list \<Rightarrow> string list \<Rightarrow> string list" where
  "misses_of daily_dates target_dates =
     (let daily_indices = daily_indices_of daily_dates target_dates;
          daily_matched_dates = map (\<lambda>k. daily_dates ! k) daily_indices;
          matches = filter (\<lambda>item. item \<in> set target_dates) daily_matched_dates
      in filter (\<lambda>item. item \<notin> set matches) target_dates)"

definition match_data ::
  "(string \<Rightarrow> real option) \<Rightarrow> ('v \<Rightarrow> real option) \<Rightarrow> string list \<Rightarrow> 'v list \<Rightarrow> string list \<Rightarrow>
     py_error + (string list \<times> real list \<times> real list)" where
  "match_data to_float conv daily_dates daily_returns target_dates =
     (let daily_indices = daily_indices_of daily_dates target_dates;
          daily_matched_returns = replicate (length daily_indices) 0;
          misses = misses_of daily_dates target_dates;
          daily_matched_dates = daily_matched_returns
      in bind_err
           (fold_err
              (match_step to_float conv daily_dates daily_returns target_dates daily_indices misses)
              (0, daily_matched_returns, daily_matched_dates) [0..<length target_dates])
           (\<lambda>(j, returns', dates'). Inr (misses, dates', returns')))"

section \<open>The text loader: \<^verbatim>\<open>load_text\<close>\<close>

text \<open>
  A file is the list of its lines as the loop of line 31 sees them, each with its line
  end. \<open>fs\<close> is what \<^verbatim>\<open>open(csvfile, 'r')\<close> finds: \<open>None\<close> is the IOError of a
  file that cannot be opened. \<open>sep\<close> is \<open>None\<close> for Python's \<^verbatim>\<open>None\<close> (split at
  white space). The header is \<open>None\<close> where the script returns \<^verbatim>\<open>False\<close>.
\<close>

definition split_row :: "string option \<Rightarrow> string \<Rightarrow> py_error + string list" where
  "split_row sep row =
     (case sep of
        Some s \<Rightarrow> if s = [] then Inl ValueError else Inr (split_sep s (py_strip row))
      | None \<Rightarrow> Inr (py_split_ws (py_strip row)))"

definition load_text ::
  "(string \<Rightarrow> string list option) \<Rightarrow> string \<Rightarrow> string option \<Rightarrow> int \<Rightarrow> int option \<Rightarrow>
     py_error + (string list option \<times> string list list)" where
  "load_text fs csvfile sep num_headerlines header_return =
     (case fs csvfile of
        None \<Rightarrow> Inl IOError
      | Some loaded_csv \<Rightarrow>
          bind_err (comprehend (split_row sep) loaded_csv) (\<lambda>out.
          bind_err (case header_return of
                      Some h \<Rightarrow> bind_err (py_index out h) (\<lambda>header. Inr (Some header))
                    | None \<Rightarrow> Inr None) (\<lambda>header.
          Inr (header, py_slice_from out num_headerlines))))"

section \<open>The numpy arrays the pipeline builds\<close>

text \<open>
  The arrays of the script have at most two dimensions: \<open>A0\<close> is a scalar array
  (shape \<open>()\<close>), \<open>A1\<close> a vector, \<open>A2\<close> a matrix given by its rows, which have one
  length. A matrix made from a list of rows has at least one row.
\<close>

datatype ndarray = A0 real | A1 "real list" | A2 "real list list"

definition ndim :: "ndarray \<Rightarrow> nat" where
  "ndim X = (case X of A0 x \<Rightarrow> 0 | A1 v \<Rightarrow> 1 | A2 rows \<Rightarrow> 2)"

text \<open>The shape, with leading ones up to two dimensions, as broadcasting aligns it.\<close>

definition dims :: "ndarray \<Rightarrow> nat \<times> nat" where
  "dims X =
     (case X of
        A0 x \<Rightarrow> (1, 1)
      | A1 v \<Rightarrow> (1, length v)
      | A2 rows \<Rightarrow> (length rows, case rows of [] \<Rightarrow> 0 | r # _ \<Rightarrow> length r))"

text \<open>
  \<^verbatim>\<open>np.asarray(rows).astype(float)\<close> for a list of rows of strings: the empty list
  gives the empty vector; rows of one length give a matrix, every cell converted; rows of
  different lengths give an array of objects, which \<^verbatim>\<open>astype\<close> refuses.
\<close>

definition np_floats :: "(string \<Rightarrow> real option) \<Rightarrow> string list list \<Rightarrow> py_error + ndarray" where
  "np_floats to_float rows =
     (case rows of
        [] \<Rightarrow> Inr (A1 [])
      | r # rs \<Rightarrow>
          if list_all (\<lambda>x. length x = length r) rs
          then bind_err (comprehend (astype_float to_float) rows) (\<lambda>m. Inr (A2 m))
          else Inl ValueError)"

text \<open>\<^verbatim>\<open>np.squeeze\<close>: the dimensions of length one are dropped.\<close>

definition np_squeeze :: "ndarray \<Rightarrow> ndarray" where
  "np_squeeze X =
     (case X of
        A0 x \<Rightarrow> A0 x
      | A1 v \<Rightarrow> if length v = 1 then A0 (hd v) else A1 v
      | A2 rows \<Rightarrow>
          (case dims X of (n, k) \<Rightarrow>
             if n = 1 \<and> k = 1 then A0 (hd (hd rows))
             else if n = 1 then A1 (hd rows)
             else if k = 1 then A1 (map hd rows)
             else A2 rows))"

text \<open>A scalar times an array.\<close>

definition np_scale :: "real \<Rightarrow> ndarray \<Rightarrow> ndarray" where
  "np_scale c X =
     (case X of
        A0 x \<Rightarrow> A0 (c * x)
      | A1 v \<Rightarrow> A1 (map (\<lambda>x. c * x) v)
      | A2 rows \<Rightarrow> A2 (map (map (\<lambda>x. c * x)) rows))"

text \<open>
  An element-wise operation with numpy's broadcasting: the shapes are aligned at their
  last dimension; two lengths fit when they are equal or one of them is one, and the
  array of length one is repeated; shapes that do not fit raise ValueError. \<open>bcast_at X i j\<close>
  is the element of \<open>X\<close> that position \<open>(i, j)\<close> of the result reads.
\<close>

definition bdim :: "nat \<Rightarrow> nat \<Rightarrow> nat option" where
  "bdim a b = (if a = b then Some a else if a = 1 then Some b else if b = 1 then Some a else None)"

definition bcast_at :: "ndarray \<Rightarrow> nat \<Rightarrow> nat \<Rightarrow> real" where
  "bcast_at X i j =
     (case X of
        A0 x \<Rightarrow> x
      | A1 v \<Rightarrow> v ! (if length v = 1 then 0 else j)
      | A2 rows \<Rightarrow>
          (rows ! (if length rows = 1 then 0 else i)) ! (if snd (dims X) = 1 then 0 else j))"

definition np_binop :: "(real \<Rightarrow> real \<Rightarrow> real) \<Rightarrow> ndarray \<Rightarrow> ndarray \<Rightarrow> py_error + ndarray" where
  "np_binop f X Y =
     (case (bdim (fst (dims X)) (fst (dims Y)), bdim (snd (dims X)) (snd (dims Y))) of
        (Some n, Some k) \<Rightarrow>
          (let rows = map (\<lambda>i. map (\<lambda>j. f (bcast_at X i j) (bcast_at Y i j)) [0..<k]) [0..<n];
               d = max (ndim X) (ndim Y)
           in Inr (if d = 0 then A0 (hd (hd rows)) else if d = 1 then A1 (hd rows) else A2 rows))
      | _ \<Rightarrow> Inl ValueError)"

text \<open>
  \<^verbatim>\<open>X[:, cols]\<close>: IndexError for an array of fewer than two dimensions, and for a
  column the matrix does not have.
\<close>

definition np_take_cols :: "nat list \<Rightarrow> ndarray \<Rightarrow> py_error + ndarray" where
  "np_take_cols cols X =
     (case X of
        A2 rows \<Rightarrow>
          if list_all (\<lambda>c. c < snd (dims X)) cols
          then Inr (A2 (map (\<lambda>row. map (\<lambda>c. row ! c) cols) rows))
          else Inl IndexError
      | _ \<Rightarrow> Inl IndexError)"

text \<open>
  \<^verbatim>\<open>np.vstack((X, Y))\<close>: both arrays as matrices (a vector is one row), one on top of
  the other; ValueError when the rows differ in length.
\<close>

definition atleast_2d :: "ndarray \<Rightarrow> real list list" where
  "atleast_2d X = (case X of A0 x \<Rightarrow> [[x]] | A1 v \<Rightarrow> [v] | A2 rows \<Rightarrow> rows)"

definition np_vstack :: "ndarray \<Rightarrow> ndarray \<Rightarrow> py_error + ndarray" where
  "np_vstack X Y =
     (if snd (dims (A2 (atleast_2d X))) = snd (dims (A2 (atleast_2d Y)))
      then Inr (A2 (atleast_2d X @ atleast_2d Y))
      else Inl ValueError)"

text \<open>
  \<^verbatim>\<open>X.T\<close>. A matrix of \<open>n\<close> rows and no column becomes one of no row, whose \<open>n\<close>
  columns the list of rows does not show.
\<close>

definition np_T :: "ndarray \<Rightarrow> ndarray" where
  "np_T X =
     (case X of
        A2 rows \<Rightarrow> A2 (map (\<lambda>j. map (\<lambda>row. row ! j) rows) [0..<snd (dims X)])
      | _ \<Rightarrow> X)"

section \<open>The pipeline: \<^verbatim>\<open>match_dates_and_save\<close>\<close>

text \<open>
  What the run writes, in order. The messages it prints are not modelled.
\<close>

datatype written =
    SaveTxt string ndarray
  | SaveMat string ndarray ndarray

fun is_SaveMat :: "written \<Rightarrow> bool" where
  "is_SaveMat (SaveMat path predictors targets) = True"
| "is_SaveMat (SaveTxt path X) = False"

text \<open>
  The world outside the script: \<open>files ws\<close> is what can be opened for reading once the
  run has written \<open>ws\<close> (the run may read back what it wrote), \<open>can_write ws path\<close>
  says whether \<open>path\<close> can then be opened for writing (its directory exists), and \<open>cwd\<close>
  is \<^verbatim>\<open>os.path.abspath('.')\<close>.
\<close>

record world =
  files :: "written list \<Rightarrow> string \<Rightarrow> string list option"
  can_write :: "written list \<Rightarrow> string \<Rightarrow> bool"
  cwd :: string

text \<open>\<^verbatim>\<open>os.path.join(a, b)\<close> of \<^verbatim>\<open>posixpath\<close>.\<close>

definition path_join :: "string \<Rightarrow> string \<Rightarrow> string" where
  "path_join a b =
     (if b \<noteq> [] \<and> hd b = CHR ''/'' then b
      else if a = [] \<or> last a = CHR ''/'' then a @ b
      else a @ ''/'' @ b)"

definition outfile_of :: "world \<Rightarrow> string \<Rightarrow> string \<Rightarrow> string" where
  \<comment> \<open>lines 168 and 169\<close>
  "outfile_of w output_type input_path =
     (let outpath = path_join (cwd w) output_type
      in path_join outpath (hd (split_sep ''.'' (last (split_sep ''/'' input_path))) @ ''_returns.csv''))"

text \<open>
  Python's truth of the test of line 147. \<^verbatim>\<open>output_type is "returns" or "premiums"\<close>
  parses as \<^verbatim>\<open>(output_type is "returns") or "premiums"\<close>: when the identity test
  is false the value of the test is the string \<^verbatim>\<open>"premiums"\<close>, which is not empty.
  The identity of two equal strings is up to the interpreter; \<open>same\<close> stands for it.
\<close>

datatype pyval = PyBool bool | PyStr string

fun truthy :: "pyval \<Rightarrow> bool" where
  "truthy (PyBool b) = b"
| "truthy (PyStr s) = (s \<noteq> [])"

definition py_or :: "pyval \<Rightarrow> pyval \<Rightarrow> pyval" where
  "py_or a b = (if truthy a then a else b)"

definition is_returns_or_premiums :: "bool \<Rightarrow> bool" where
  "is_returns_or_premiums same = truthy (py_or (PyBool same) (PyStr ''premiums''))"

text \<open>
  The variable \<^verbatim>\<open>input_data\<close> after lines 147 to 151: the column of returns that
  \<open>prices_to_returns\<close> made, or the list of strings that \<open>get_dates_yahoo\<close> returned.
\<close>

datatype series = Floats "real list" | Strings "string list"

definition set_output_type ::
  "(string \<Rightarrow> real option) \<Rightarrow> string \<Rightarrow> string list \<Rightarrow> py_error + series" where
  "set_output_type to_float output_type input_data =
     (if is_returns_or_premiums (output_type = ''returns'')
      then bind_err (prices_to_returns to_float input_data) (\<lambda>r. Inr (Floats r))
      else Inr (Strings input_data))"

definition match_series ::
  "(string \<Rightarrow> real option) \<Rightarrow> string list \<Rightarrow> series \<Rightarrow> string list \<Rightarrow>
     py_error + (string list \<times> real list \<times> real list)" where
  "match_series to_float input_dates input_data target_dates =
     (case input_data of
        Floats r \<Rightarrow> match_data to_float Some input_dates r target_dates
      | Strings s \<Rightarrow> match_data to_float to_float input_dates s target_dates)"

text \<open>
  Lines 132 to 155 for one input tuple: load, extract (always in the default order
  \<^verbatim>\<open>"chronological"\<close>), convert, match. The result is \<^verbatim>\<open>matched_input_data\<close>.
\<close>

definition matched_input ::
  "(string \<Rightarrow> real option) \<Rightarrow> (string \<Rightarrow> string list option) \<Rightarrow> string option \<Rightarrow>
     string list list \<Rightarrow> string \<times> string \<Rightarrow> py_error + real list" where
  "matched_input to_float fs input_sep target_data input_tuple =
     (case input_tuple of (input_path, output_type) \<Rightarrow>
        bind_err (load_text fs input_path input_sep 1 (Some 0)) (\<lambda>(input_header, input_rows).
        bind_err (get_dates_yahoo input_rows ''chronological'') (\<lambda>(input_dates, input_data).
        bind_err (comprehend (\<lambda>td. py_get td 0) target_data) (\<lambda>target_dates.
        bind_err (set_output_type to_float output_type input_data) (\<lambda>input_data'.
        bind_err (match_series to_float input_dates input_data' target_dates)
          (\<lambda>(missed_target_dates, matched_input_dates, matched_input_data).
        Inr matched_input_data))))))"

text \<open>
  Line 165: the matched series minus \<^verbatim>\<open>1./(12*100.)\<close> times the squeezed risk-free
  data.
\<close>

definition to_premiums ::
  "(string \<Rightarrow> real option) \<Rightarrow> real list \<Rightarrow> string list list \<Rightarrow> py_error + ndarray" where
  "to_premiums to_float matched_input_data RF_data =
     bind_err (np_floats to_float RF_data) (\<lambda>rf.
       np_binop (-) (A1 matched_input_data) (np_scale (1 / (12 * 100)) (np_squeeze rf)))"

text \<open>
  One round of the loop of lines 130 to 177. The state is the list of writes so far and
  \<^verbatim>\<open>out_mat\<close> (\<open>None\<close> for Python's \<^verbatim>\<open>None\<close>). \<open>RF\<close> is \<^verbatim>\<open>RF_data\<close> when
  a risk-free path was given. A write that was made stays made when a later step raises.
\<close>

definition process_input ::
  "(string \<Rightarrow> real option) \<Rightarrow> world \<Rightarrow> bool \<Rightarrow> string option \<Rightarrow> string list list \<Rightarrow>
     string list list option \<Rightarrow> written list \<times> ndarray option \<Rightarrow> string \<times> string \<Rightarrow>
     written list \<times> (py_error + ndarray option)" where
  "process_input to_float w save_mat input_sep target_data RF st input_tuple =
     (case st of (ws, out_mat) \<Rightarrow>
        (case bind_err (matched_input to_float (files w ws) input_sep target_data input_tuple)
                (\<lambda>matched_input_data.
                   case RF of
                     Some RF_data \<Rightarrow>
                       if snd input_tuple = ''premiums''
                       then to_premiums to_float matched_input_data RF_data
                       else Inr (A1 matched_input_data)
                   | None \<Rightarrow> Inr (A1 matched_input_data)) of
           Inl e \<Rightarrow> (ws, Inl e)
         | Inr matched_input_data \<Rightarrow>
             (let outfile = outfile_of w (snd input_tuple) (fst input_tuple)
              in if \<not> can_write w ws outfile then (ws, Inl IOError)
                 else (ws @ [SaveTxt outfile matched_input_data],
                       if save_mat
                       then (case out_mat of
                               None \<Rightarrow> Inr (Some matched_input_data)
                             | Some m \<Rightarrow>
                                 bind_err (np_vstack m matched_input_data) (\<lambda>m'. Inr (Some m')))
                       else Inr out_mat))))"

fun process_inputs ::
  "(string \<Rightarrow> real option) \<Rightarrow> world \<Rightarrow> bool \<Rightarrow> string option \<Rightarrow> string list list \<Rightarrow>
     string list list option \<Rightarrow> written list \<times> ndarray option \<Rightarrow> (string \<times> string) list \<Rightarrow>
     written list \<times> (py_error + ndarray option)" where
  "process_inputs to_float w save_mat input_sep target_data RF st [] = (fst st, Inr (snd st))"
| "process_inputs to_float w save_mat input_sep target_data RF st (input_tuple # input_list) =
     (case process_input to_float w save_mat input_sep target_data RF st input_tuple of
        (ws, Inl e) \<Rightarrow> (ws, Inl e)
      | (ws, Inr out_mat) \<Rightarrow>
          process_inputs to_float w save_mat input_sep target_data RF (ws, out_mat) input_list)"

text \<open>
  Lines 124 to 127, run when a risk-free path is given: \<^verbatim>\<open>RF_data\<close> and
  \<^verbatim>\<open>target_data_out\<close>.
\<close>

definition load_risk_free ::
  "(string \<Rightarrow> real option) \<Rightarrow> (string \<Rightarrow> string list option) \<Rightarrow> string option \<Rightarrow>
     string list list \<Rightarrow> string \<Rightarrow> py_error + (string list list \<times> ndarray)" where
  "load_risk_free to_float fs input_sep target_data risk_free_path =
     bind_err (load_text fs risk_free_path input_sep 0 None) (\<lambda>(RF_header, RF_data).
     bind_err (np_floats to_float target_data) (\<lambda>t.
     bind_err (np_floats to_float RF_data) (\<lambda>rf.
     bind_err (np_binop (-) t (np_scale (1 / (12 * 100)) rf)) (\<lambda>d.
     bind_err (np_take_cols [1, 4, 7, 10, 13, 16] d) (\<lambda>target_data_out.
     Inr (RF_data, target_data_out))))))"

text \<open>
  Lines 179 to 182. The dictionary of line 181 evaluates \<^verbatim>\<open>out_mat.T\<close> first
  (AttributeError when \<^verbatim>\<open>out_mat\<close> is still \<^verbatim>\<open>None\<close>) and then reads
  \<^verbatim>\<open>target_data_out\<close>, a local name that only line 127 assigns.
\<close>

definition save_all ::
  "world \<Rightarrow> written list \<Rightarrow> ndarray option \<Rightarrow> ndarray option \<Rightarrow> written list \<times> py_error option" where
  "save_all w ws out_mat target_data_out =
     (let mat_outpath = path_join (cwd w) ''matfiles/''
      in case out_mat of
           None \<Rightarrow> (ws, Some AttributeError)
         | Some m \<Rightarrow>
             (case target_data_out of
                None \<Rightarrow> (ws, Some UnboundLocalError)
              | Some t \<Rightarrow>
                  if can_write w ws (mat_outpath @ ''All_variables_matched.mat'')
                  then (ws @ [SaveMat (mat_outpath @ ''All_variables_matched.mat'') (np_T m) t], None)
                  else (ws, Some IOError)))"

text \<open>
  The whole function, for an \<^verbatim>\<open>input_list\<close> that is a list of tuples. It returns
  the writes of the run and the exception that ended it, \<open>None\<close> when it ran to its end.
  \<^verbatim>\<open>order\<close> is a parameter the body never reads.
\<close>

definition match_dates_and_save ::
  "(string \<Rightarrow> real option) \<Rightarrow> world \<Rightarrow> (string \<times> string) list \<Rightarrow> string \<Rightarrow> string \<Rightarrow> bool \<Rightarrow>
     string option \<Rightarrow> string option \<Rightarrow> string option \<Rightarrow> written list \<times> py_error option" where
  "match_dates_and_save to_float w input_list target_path order save_mat input_sep target_sep
     risk_free_path =
     (case load_text (files w []) target_path target_sep 3 (Some 1) of
        Inl e \<Rightarrow> ([], Some e)
      | Inr (target_header, target_data) \<Rightarrow>
          (case (case risk_free_path of
                   None \<Rightarrow> Inr None
                 | Some path \<Rightarrow>
                     bind_err (load_risk_free to_float (files w []) input_sep target_data path)
                       (\<lambda>rf. Inr (Some rf))) of
             Inl e \<Rightarrow> ([], Some e)
           | Inr rf \<Rightarrow>
               (case process_inputs to_float w save_mat input_sep target_data
                       (map_option fst rf) ([], None) input_list of
                  (ws, Inl e) \<Rightarrow> (ws, Some e)
                | (ws, Inr out_mat) \<Rightarrow>
                    if save_mat then save_all w ws out_mat (map_option snd rf)
                    else (ws, None))))"

section \<open>A small world for concrete runs\<close>

text \<open>
  Three files: a target file with three header lines and two dated rows of seventeen
  columns, a daily file in the vendor's format (a header line, then three rows, newest
  first, the date between quotes and the price in part 4), and a risk-free file of one
  column. \<open>sample_target_data\<close> and \<open>sample_rows\<close> are what \<open>load_text\<close> makes of
  the first two.
\<close>

definition sample_world :: world where
  "sample_world =
     \<lparr> files = (\<lambda>ws path.
          if path = ''FF.txt''
          then Some [''six portfolios'' @ [CHR 0x0A],
                     ''date p1 p2'' @ [CHR 0x0A],
                     ''----'' @ [CHR 0x0A],
                     ''20200101 3 1 4 1 5 9 2 6 5 3 5 8 9 7 9 3'' @ [CHR 0x0A],
                     ''20200102 2 7 1 8 2 8 1 8 2 8 4 5 9 0 4 5'' @ [CHR 0x0A]]
          else if path = ''raw/a.csv''
          then Some [''Date'' @ CHR 0x09 # ''Open'' @ CHR 0x09 # ''High'' @ CHR 0x09 # ''Low'' @ CHR 0x09 # ''Close'' @ [CHR 0x0A],
                     CHR 0x22 # ''2020-01-03'' @ CHR 0x22 # CHR 0x09 # ''1'' @ CHR 0x09 # ''2'' @ CHR 0x09 # ''3'' @ CHR 0x09 # ''12'' @ [CHR 0x0A],
                     CHR 0x22 # ''2020-01-02'' @ CHR 0x22 # CHR 0x09 # ''1'' @ CHR 0x09 # ''2'' @ CHR 0x09 # ''3'' @ CHR 0x09 # ''11'' @ [CHR 0x0A],
                     CHR 0x22 # ''2020-01-01'' @ CHR 0x22 # CHR 0x09 # ''1'' @ CHR 0x09 # ''2'' @ CHR 0x09 # ''3'' @ CHR 0x09 # ''10'' @ [CHR 0x0A]]
          else if path = ''rf.csv''
          then Some [''12'' @ [CHR 0x0A], ''24'' @ [CHR 0x0A]]
          else None),
       can_write = (\<lambda>ws path. True),
       cwd = ''/home/u'' \<rparr>"

definition sample_target_data :: "string list list" where
  "sample_target_data =
     [[''20200101'', ''3'', ''1'', ''4'', ''1'', ''5'', ''9'', ''2'', ''6'', ''5'', ''3'', ''5'', ''8'', ''9'', ''7'', ''9'', ''3''],
      [''20200102'', ''2'', ''7'', ''1'', ''8'', ''2'', ''8'', ''1'', ''8'', ''2'', ''8'', ''4'', ''5'', ''9'', ''0'', ''4'', ''5'']]"

definition sample_rows :: "string list list" where
  "sample_rows =
     [[CHR 0x22 # ''2020-01-03'' @ CHR 0x22 # CHR 0x09 # ''1'' @ CHR 0x09 # ''2'' @ CHR 0x09 # ''3'' @ CHR 0x09 # ''12''],
      [CHR 0x22 # ''2020-01-02'' @ CHR 0x22 # CHR 0x09 # ''1'' @ CHR 0x09 # ''2'' @ CHR 0x09 # ''3'' @ CHR 0x09 # ''11''],
      [CHR 0x22 # ''2020-01-01'' @ CHR 0x22 # CHR 0x09 # ''1'' @ CHR 0x09 # ''2'' @ CHR 0x09 # ''3'' @ CHR 0x09 # ''10'']]"

section \<open>Properties\<close>

subsection \<open>Errors and comprehensions\<close>

lemma bind_err_Inl [simp]: "bind_err (Inl e) f = Inl e"
  by (simp add: bind_err_def)

lemma bind_err_Inr [simp]: "bind_err (Inr v) f = f v"
  by (simp add: bind_err_def)

lemma bind_err_eq_Inr:
  "bind_err m f = Inr y \<longleftrightarrow> (\<exists>v. m = Inr v \<and> f v = Inr y)"
  by (cases m) simp_all

lemma bind_err_eq_Inl:
  "bind_err m f = Inl e \<longleftrightarrow> m = Inl e \<or> (\<exists>v. m = Inr v \<and> f v = Inl e)"
  by (cases m) simp_all

lemma comprehend_map:
  "(\<And>x. x \<in> set xs \<Longrightarrow> f x = Inr (g x)) \<Longrightarrow> comprehend f xs = Inr (map g xs)"
  by (induction xs) simp_all

lemma comprehend_Inr_nth:
  "comprehend f xs = Inr ys \<Longrightarrow> length ys = length xs \<and> (\<forall>i < length xs. f (xs ! i) = Inr (ys ! i))"
proof (induction xs arbitrary: ys)
  case Nil
  then show ?case by simp
next
  case (Cons x xs)
  then obtain y ys' where y: "f x = Inr y" and ys': "comprehend f xs = Inr ys'" and eq: "ys = y # ys'"
    by (auto split: sum.splits)
  from Cons.IH [OF ys'] y eq show ?case
    by (auto simp: nth_Cons split: nat.splits)
qed

lemma comprehend_Inl:
  "comprehend f xs = Inl e \<Longrightarrow> \<exists>x \<in> set xs. f x = Inl e"
  by (induction xs) (auto split: sum.splits)

subsection \<open>The date extractor\<close>

lemma split_first_field:
  "yahoo_row item \<Longrightarrow> py_get item 0 = Inr (hd item)"
  by (cases item) (simp_all add: yahoo_row_def py_get_def)

lemma yahoo_parse_rows:
  assumes "list_all yahoo_row yahoo_list"
  shows "yahoo_parse yahoo_list =
    Inr (map (\<lambda>item. date_key (row_date item)) yahoo_list, map row_value yahoo_list)"
proof -
  have rows: "\<And>item. item \<in> set yahoo_list \<Longrightarrow> yahoo_row item"
    using assms by (simp add: list_all_iff)
  have parts: "\<And>item. item \<in> set yahoo_list \<Longrightarrow> 5 \<le> length (split_sep tab (hd item))"
  proof -
    fix item assume "item \<in> set yahoo_list"
    then have "yahoo_row item" by (rule rows)
    then show "5 \<le> length (split_sep tab (hd item))"
      by (cases item) (simp_all add: yahoo_row_def)
  qed
  have l1: "comprehend (\<lambda>item. bind_err (py_get item 0) (\<lambda>f. Inr (split_sep tab f))) yahoo_list
      = Inr (map (\<lambda>item. split_sep tab (hd item)) yahoo_list)"
    by (rule comprehend_map) (simp add: split_first_field rows)
  have l2: "comprehend (\<lambda>item. py_get item 0) (map (\<lambda>item. split_sep tab (hd item)) yahoo_list)
      = Inr (map hd (map (\<lambda>item. split_sep tab (hd item)) yahoo_list))"
  proof (rule comprehend_map)
    fix x assume "x \<in> set (map (\<lambda>item. split_sep tab (hd item)) yahoo_list)"
    then have "5 \<le> length x" using parts by auto
    then show "py_get x 0 = Inr (hd x)" by (cases x) (simp_all add: py_get_def)
  qed
  have l3: "comprehend (\<lambda>item. py_get item 4) (map (\<lambda>item. split_sep tab (hd item)) yahoo_list)
      = Inr (map (\<lambda>x. x ! 4) (map (\<lambda>item. split_sep tab (hd item)) yahoo_list))"
  proof (rule comprehend_map)
    fix x assume "x \<in> set (map (\<lambda>item. split_sep tab (hd item)) yahoo_list)"
    then have "5 \<le> length x" using parts by auto
    then show "py_get x 4 = Inr (x ! 4)" by (simp add: py_get_def)
  qed
  show ?thesis
    by (simp add: yahoo_parse_def l1 l2 l3 row_date_def row_value_def comp_def)
qed

lemma yahoo_parse_error: "yahoo_parse yahoo_list = Inl e \<Longrightarrow> e = IndexError"
  unfolding yahoo_parse_def bind_err_eq_Inl
  by (auto dest!: comprehend_Inl simp: py_get_def bind_err_eq_Inl split: if_splits)

lemma yahoo_parse_needs_rows:
  assumes "yahoo_parse yahoo_list = Inr r"
  shows "list_all yahoo_row yahoo_list"
proof -
  from assms obtain lol returns where
    l1: "comprehend (\<lambda>item. bind_err (py_get item 0) (\<lambda>f. Inr (split_sep tab f))) yahoo_list = Inr lol"
    and l3: "comprehend (\<lambda>item. py_get item 4) lol = Inr returns"
    by (auto simp: yahoo_parse_def bind_err_eq_Inr)
  have "yahoo_row item" if "item \<in> set yahoo_list" for item
  proof -
    from that obtain i where i: "i < length yahoo_list" "yahoo_list ! i = item"
      by (auto simp: in_set_conv_nth)
    from comprehend_Inr_nth [OF l1] i
    have len: "length lol = length yahoo_list"
      and f: "bind_err (py_get item 0) (\<lambda>f. Inr (split_sep tab f)) = Inr (lol ! i)"
      by auto
    from f obtain f0 where f0: "py_get item 0 = Inr f0" "lol ! i = split_sep tab f0"
      by (auto simp: bind_err_eq_Inr)
    from comprehend_Inr_nth [OF l3] i len have "\<exists>v. py_get (lol ! i) 4 = Inr v"
      by auto
    then have "5 \<le> length (lol ! i)"
      by (auto simp: py_get_def split: if_splits)
    with f0 show ?thesis
      by (cases item) (auto simp: yahoo_row_def py_get_def split: if_splits)
  qed
  then show ?thesis by (simp add: list_all_iff)
qed


lemma get_dates_yahoo_chronological:
  assumes "list_all yahoo_row yahoo_list"
  shows "get_dates_yahoo yahoo_list ''chronological'' =
    Inr (rev (map (\<lambda>item. date_key (row_date item)) yahoo_list), rev (map row_value yahoo_list))"
  by (simp add: get_dates_yahoo_def yahoo_parse_rows [OF assms])

text \<open>
  Claim C6. For every list of rows in the vendor's format, the lists parsed row by row
  (lines 50 to 59) are the date keys and the values of the rows in their order, and
  \<open>get_dates_yahoo\<close> with the order \<^verbatim>\<open>"chronological"\<close> returns exactly the reverse
  of each of the two lists.
\<close>

theorem chronological_is_reverse_of_parsed:
  assumes "list_all yahoo_row yahoo_list"
  shows "yahoo_parse yahoo_list =
           Inr (map (\<lambda>item. date_key (row_date item)) yahoo_list, map row_value yahoo_list) \<and>
         get_dates_yahoo yahoo_list ''chronological'' =
           Inr (rev (map (\<lambda>item. date_key (row_date item)) yahoo_list),
                rev (map row_value yahoo_list))"
  using yahoo_parse_rows [OF assms] get_dates_yahoo_chronological [OF assms] by simp

theorem chronological_is_reverse_of_parsed_witness:
  "list_all yahoo_row
     [[''2020-01-03'' @ CHR 0x09 # ''1'' @ CHR 0x09 # ''2'' @ CHR 0x09 # ''3'' @ CHR 0x09 # ''12.5''],
      [''2020-01-02'' @ CHR 0x09 # ''1'' @ CHR 0x09 # ''2'' @ CHR 0x09 # ''3'' @ CHR 0x09 # ''11'']] \<and>
   get_dates_yahoo
     [[''2020-01-03'' @ CHR 0x09 # ''1'' @ CHR 0x09 # ''2'' @ CHR 0x09 # ''3'' @ CHR 0x09 # ''12.5''],
      [''2020-01-02'' @ CHR 0x09 # ''1'' @ CHR 0x09 # ''2'' @ CHR 0x09 # ''3'' @ CHR 0x09 # ''11'']]
     ''chronological'' = Inr ([''0200102'', ''0200103''], [''11'', ''12.5''])"
proof -
  let ?rows = "[[''2020-01-03'' @ CHR 0x09 # ''1'' @ CHR 0x09 # ''2'' @ CHR 0x09 # ''3'' @ CHR 0x09 # ''12.5''],
      [''2020-01-02'' @ CHR 0x09 # ''1'' @ CHR 0x09 # ''2'' @ CHR 0x09 # ''3'' @ CHR 0x09 # ''11'']]"
  have rows: "list_all yahoo_row ?rows"
    by (simp add: yahoo_row_def split_sep.simps tab_def)
  from chronological_is_reverse_of_parsed [OF rows]
  have "get_dates_yahoo ?rows ''chronological'' =
      Inr (rev (map (\<lambda>item. date_key (row_date item)) ?rows), rev (map row_value ?rows))"
    by simp
  then have "get_dates_yahoo ?rows ''chronological'' = Inr ([''0200102'', ''0200103''], [''11'', ''12.5''])"
    by (simp add: date_key_def row_date_def row_value_def split_sep.simps tab_def)
  with rows show ?thesis by simp
qed

text \<open>
  Claim C7. The claim says that the order \<^verbatim>\<open>"reverse"\<close> returns the parsed lists
  without failing. The code fails for every list of rows: line 65 returns
  \<^verbatim>\<open>yahoo_returns\<close>, which no line of that branch assigns, so a list of rows that
  parses ends in UnboundLocalError (and one that does not parse in the IndexError of the
  parse), here at one row in the vendor's format.
\<close>

theorem reverse_order_always_fails:
  "isl (get_dates_yahoo yahoo_list ''reverse'') \<and>
   get_dates_yahoo
     [[''2020-01-03'' @ CHR 0x09 # ''1'' @ CHR 0x09 # ''2'' @ CHR 0x09 # ''3'' @ CHR 0x09 # ''12.5'']]
     ''reverse'' = Inl UnboundLocalError"
proof
  show "isl (get_dates_yahoo yahoo_list ''reverse'')"
    by (cases "yahoo_parse yahoo_list") (auto simp: get_dates_yahoo_def)
  have "list_all yahoo_row
     [[''2020-01-03'' @ CHR 0x09 # ''1'' @ CHR 0x09 # ''2'' @ CHR 0x09 # ''3'' @ CHR 0x09 # ''12.5'']]"
    by (simp add: yahoo_row_def split_sep.simps tab_def)
  from yahoo_parse_rows [OF this]
  show "get_dates_yahoo
     [[''2020-01-03'' @ CHR 0x09 # ''1'' @ CHR 0x09 # ''2'' @ CHR 0x09 # ''3'' @ CHR 0x09 # ''12.5'']]
     ''reverse'' = Inl UnboundLocalError"
    by (simp add: get_dates_yahoo_def)
qed

text \<open>
  Claim C8. On rows in the vendor's format, every order other than
  \<^verbatim>\<open>"chronological"\<close> and \<^verbatim>\<open>"reverse"\<close> ends in ValueError; and whatever the
  rows are, a ValueError of \<open>get_dates_yahoo\<close> means that the order was neither of the
  two. On rows outside the format the IndexError of the parse comes before the test of
  the order, for every order.
\<close>

theorem invalid_order_is_usage_error:
  "(list_all yahoo_row yahoo_list \<and> order \<noteq> ''chronological'' \<and> order \<noteq> ''reverse''
      \<longrightarrow> get_dates_yahoo yahoo_list order = Inl ValueError) \<and>
   (get_dates_yahoo yahoo_list order = Inl ValueError
      \<longrightarrow> order \<noteq> ''chronological'' \<and> order \<noteq> ''reverse'') \<and>
   (\<not> list_all yahoo_row yahoo_list \<longrightarrow> get_dates_yahoo yahoo_list order = Inl IndexError)"
proof (intro conjI impI)
  assume "list_all yahoo_row yahoo_list \<and> order \<noteq> ''chronological'' \<and> order \<noteq> ''reverse''"
  then show "get_dates_yahoo yahoo_list order = Inl ValueError"
    by (simp add: get_dates_yahoo_def yahoo_parse_rows)
next
  assume v: "get_dates_yahoo yahoo_list order = Inl ValueError"
  show "order \<noteq> ''chronological''"
  proof
    assume "order = ''chronological''"
    with v show False
      by (cases "yahoo_parse yahoo_list") (auto simp: get_dates_yahoo_def dest: yahoo_parse_error)
  qed
  show "order \<noteq> ''reverse''"
  proof
    assume "order = ''reverse''"
    with v show False
      by (cases "yahoo_parse yahoo_list") (auto simp: get_dates_yahoo_def dest: yahoo_parse_error)
  qed
next
  assume bad: "\<not> list_all yahoo_row yahoo_list"
  show "get_dates_yahoo yahoo_list order = Inl IndexError"
  proof (cases "yahoo_parse yahoo_list")
    case (Inl e)
    with yahoo_parse_error [OF Inl] show ?thesis by (simp add: get_dates_yahoo_def)
  next
    case (Inr r)
    with yahoo_parse_needs_rows bad show ?thesis by blast
  qed
qed

theorem invalid_order_is_usage_error_witness:
  "list_all yahoo_row
     [[''2020-01-03'' @ CHR 0x09 # ''1'' @ CHR 0x09 # ''2'' @ CHR 0x09 # ''3'' @ CHR 0x09 # ''12.5'']] \<and>
   ''newest'' \<noteq> ''chronological'' \<and> ''newest'' \<noteq> ''reverse'' \<and>
   get_dates_yahoo
     [[''2020-01-03'' @ CHR 0x09 # ''1'' @ CHR 0x09 # ''2'' @ CHR 0x09 # ''3'' @ CHR 0x09 # ''12.5'']]
     ''newest'' = Inl ValueError"
proof -
  let ?rows = "[[''2020-01-03'' @ CHR 0x09 # ''1'' @ CHR 0x09 # ''2'' @ CHR 0x09 # ''3'' @ CHR 0x09 # ''12.5'']]"
  have rows: "list_all yahoo_row ?rows"
    by (simp add: yahoo_row_def split_sep.simps tab_def)
  have order: "''newest'' \<noteq> ''chronological'' \<and> ''newest'' \<noteq> ''reverse''"
    by simp
  from invalid_order_is_usage_error [of ?rows "''newest''"] rows order
  have "get_dates_yahoo ?rows ''newest'' = Inl ValueError"
    by blast
  with rows order show ?thesis by blast
qed

subsection \<open>The date key\<close>

lemma find_sep_char_Some:
  "find_sep [c] s = Some (before, rest) \<Longrightarrow> s = before @ c # rest \<and> c \<notin> set before"
proof (induction s arbitrary: before)
  case Nil
  then show ?case by simp
next
  case (Cons x xs)
  show ?case
  proof (cases "x = c")
    case True
    with Cons.prems show ?thesis by simp
  next
    case False
    with Cons.prems obtain b where b: "find_sep [c] xs = Some (b, rest)" "before = x # b"
      by (auto split: option.splits)
    from Cons.IH [OF b(1)] b(2) False show ?thesis by auto
  qed
qed

lemma find_sep_char_None: "find_sep [c] s = None \<Longrightarrow> c \<notin> set s"
  by (induction s) (auto split: if_splits option.splits)

lemma concat_split_sep_char: "concat (split_sep [c] s) = filter (\<lambda>x. x \<noteq> c) s"
proof (induction "[c]" s rule: split_sep.induct)
  case (1 s)
  show ?case
  proof (cases "find_sep [c] s")
    case None
    from find_sep_char_None [OF None] have "filter (\<lambda>x. x \<noteq> c) s = s"
      by (auto intro: filter_True)
    with None show ?thesis by (subst split_sep.simps) simp
  next
    case (Some br)
    obtain before rest where br: "br = (before, rest)" by (cases br)
    from find_sep_char_Some [OF Some [unfolded br]]
    have s: "s = before @ c # rest" and nb: "c \<notin> set before" by auto
    from nb have fb: "filter (\<lambda>x. x \<noteq> c) before = before"
      by (auto intro: filter_True)
    have ih: "concat (split_sep [c] rest) = filter (\<lambda>x. x \<noteq> c) rest"
      using "1.hyps" [OF _ Some br [symmetric]] by simp
    have "concat (split_sep [c] s) = before @ concat (split_sep [c] rest)"
      using Some br by (subst split_sep.simps) simp
    also have "\<dots> = filter (\<lambda>x. x \<noteq> c) (before @ c # rest)"
      by (simp add: ih fb)
    finally show ?thesis using s by simp
  qed
qed

lemma foldl_append_concat: "foldl (@) acc xs = acc @ concat xs"
  by (induction xs arbitrary: acc) simp_all

lemma date_key_slice: "date_key yd = take 8 (drop 1 (filter (\<lambda>c. c \<noteq> CHR ''-'') yd))"
  by (simp add: date_key_def foldl_append_concat concat_split_sep_char)

lemma date_key_eight:
  "filter (\<lambda>c. c \<noteq> CHR ''-'') yd = q # ds @ rest \<Longrightarrow> length ds = 8 \<Longrightarrow> date_key yd = ds"
  by (simp add: date_key_slice)

text \<open>
  Claim C9, as the claim states it, fails: field 0 of the row below starts with the bare
  hyphenated date \<^verbatim>\<open>2020-01-03\<close>, and its key is the seven characters
  \<^verbatim>\<open>0200103\<close>, because \<^verbatim>\<open>whole[1:9]\<close> drops the first character of
  \<^verbatim>\<open>20200103\<close>.
\<close>

theorem bare_date_key_has_seven_characters:
  "get_dates_yahoo
     [[''2020-01-03'' @ CHR 0x09 # ''1'' @ CHR 0x09 # ''2'' @ CHR 0x09 # ''3'' @ CHR 0x09 # ''12.5'']]
     ''chronological'' = Inr ([''0200103''], [''12.5'']) \<and>
   length ''0200103'' \<noteq> (8::nat)"
  by (simp add: get_dates_yahoo_def yahoo_parse_def py_get_def date_key_def split_sep.simps tab_def)

text \<open>
  Claim C9, amended. For every list of rows in the vendor's format, the key of a row is
  its date (part 0 of field 0) without the hyphens, with the first character dropped and
  at most the next eight kept. So a key has \<open>min 8 (n - 1)\<close> characters, where \<open>n\<close>
  counts the characters of the date that are not hyphens: eight exactly when \<open>n\<close> is at
  least nine, as for a date between quotes, whose key is its eight digits
  (\<open>date_key_eight\<close>).
\<close>

theorem date_key_is_slice_of_joined_date:
  assumes "list_all yahoo_row yahoo_list"
  shows "get_dates_yahoo yahoo_list ''chronological'' =
           Inr (rev (map (\<lambda>item. take 8 (drop 1 (filter (\<lambda>c. c \<noteq> CHR ''-'') (row_date item))))
                       yahoo_list),
                rev (map row_value yahoo_list)) \<and>
         list_all (\<lambda>item. length (date_key (row_date item)) =
                      min 8 (length (filter (\<lambda>c. c \<noteq> CHR ''-'') (row_date item)) - 1))
           yahoo_list"
  using get_dates_yahoo_chronological [OF assms]
  by (simp add: date_key_slice list_all_iff min.commute)

theorem date_key_is_slice_of_joined_date_witness:
  "list_all yahoo_row
     [[CHR 0x22 # ''2020-01-03'' @ CHR 0x22 # CHR 0x09 # ''1'' @ CHR 0x09 # ''2'' @ CHR 0x09 # ''3'' @ CHR 0x09 # ''12.5'']] \<and>
   get_dates_yahoo
     [[CHR 0x22 # ''2020-01-03'' @ CHR 0x22 # CHR 0x09 # ''1'' @ CHR 0x09 # ''2'' @ CHR 0x09 # ''3'' @ CHR 0x09 # ''12.5'']]
     ''chronological'' = Inr ([''20200103''], [''12.5''])"
proof -
  let ?rows = "[[CHR 0x22 # ''2020-01-03'' @ CHR 0x22 # CHR 0x09 # ''1'' @ CHR 0x09 # ''2'' @ CHR 0x09 # ''3'' @ CHR 0x09 # ''12.5'']]"
  have rows: "list_all yahoo_row ?rows"
    by (simp add: yahoo_row_def split_sep.simps tab_def)
  from date_key_is_slice_of_joined_date [OF rows]
  have "get_dates_yahoo ?rows ''chronological'' =
      Inr (rev (map (\<lambda>item. take 8 (drop 1 (filter (\<lambda>c. c \<noteq> CHR ''-'') (row_date item)))) ?rows),
           rev (map row_value ?rows))"
    by simp
  then have "get_dates_yahoo ?rows ''chronological'' = Inr ([''20200103''], [''12.5''])"
    by (simp add: row_date_def row_value_def split_sep.simps tab_def)
  with rows show ?thesis by simp
qed

subsection \<open>Prices to returns\<close>








subsection \<open>The date matcher\<close>

lemma float_of_decimal_20200101: "float_of_decimal ''20200101'' = Some 20200101"
  by (simp add: float_of_decimal_def unsigned_decimal_def py_strip_def py_isspace_def
      is_digit_def digits_value_def)

lemma float_of_decimal_20200103: "float_of_decimal ''20200103'' = Some 20200103"
  by (simp add: float_of_decimal_def unsigned_decimal_def py_strip_def py_isspace_def
      is_digit_def digits_value_def)

lemma np_setitem_length: "np_setitem conv arr i x = Inr arr' \<Longrightarrow> length arr' = length arr \<and> i < length arr"
  by (auto simp: np_setitem_def split: if_splits option.splits)

lemma assign_matched_length:
  assumes "assign_matched to_float conv daily_dates daily_returns daily_indices i j (rets, dts) = Inr (rets', dts')"
  shows "length rets' = length rets \<and> length dts' = length dts \<and> i < length rets"
  using assms unfolding assign_matched_def
  by (auto simp: bind_err_eq_Inr dest!: np_setitem_length)

lemma match_step_length:
  assumes "match_step to_float conv daily_dates daily_returns target_dates daily_indices misses (j, rets, dts) i
             = Inr (j', rets', dts')"
  shows "length rets' = length rets \<and> length dts' = length dts \<and> i < length rets"
  using assms unfolding match_step_def
  by (auto simp: bind_err_eq_Inr split: if_splits dest!: assign_matched_length)

lemma match_loop_length:
  assumes "fold_err (match_step to_float conv daily_dates daily_returns target_dates daily_indices misses)
             (j, rets, dts) js = Inr (j', rets', dts')"
  shows "length rets' = length rets \<and> length dts' = length dts \<and> (\<forall>i \<in> set js. i < length rets)"
  using assms
proof (induction js arbitrary: j rets dts)
  case Nil
  then show ?case by simp
next
  case (Cons i js)
  from Cons.prems obtain j1 rets1 dts1 where
    step: "match_step to_float conv daily_dates daily_returns target_dates daily_indices misses (j, rets, dts) i
             = Inr (j1, rets1, dts1)"
    and rest: "fold_err (match_step to_float conv daily_dates daily_returns target_dates daily_indices misses)
             (j1, rets1, dts1) js = Inr (j', rets', dts')"
    by (auto split: sum.splits)
  from match_step_length [OF step] Cons.IH [OF rest] show ?case by auto
qed

lemma match_data_lengths:
  assumes "match_data to_float conv daily_dates daily_returns target_dates = Inr (misses, dates, returns)"
  shows "length dates = length (daily_indices_of daily_dates target_dates) \<and>
         length returns = length (daily_indices_of daily_dates target_dates) \<and>
         length target_dates \<le> length returns \<and>
         misses = misses_of daily_dates target_dates"
proof -
  let ?D = "length (daily_indices_of daily_dates target_dates)"
  let ?loop = "fold_err (match_step to_float conv daily_dates daily_returns target_dates
             (daily_indices_of daily_dates target_dates) (misses_of daily_dates target_dates))
             (0, replicate ?D 0, replicate ?D 0) [0..<length target_dates]"
  from assms have r: "bind_err ?loop (\<lambda>(j, returns', dates').
      Inr (misses_of daily_dates target_dates, dates', returns')) = Inr (misses, dates, returns)"
    by (simp add: match_data_def Let_def)
  then obtain st where st: "?loop = Inr st"
    by (cases ?loop) simp_all
  obtain j rs ds where [simp]: "st = (j, rs, ds)" by (cases st)
  from r st have eq: "misses = misses_of daily_dates target_dates" "ds = dates" "rs = returns"
    by simp_all
  from st eq have loop: "?loop = Inr (j, returns, dates)" by simp
  from match_loop_length [OF loop]
  have len: "length returns = ?D" "length dates = ?D"
    and all: "\<forall>i \<in> set [0..<length target_dates]. i < ?D"
    by simp_all
  have "length target_dates \<le> ?D"
  proof (cases "length target_dates")
    case 0
    then show ?thesis by simp
  next
    case (Suc n)
    with all have "n < ?D" by simp
    with Suc show ?thesis by simp
  qed
  with len eq show ?thesis by simp
qed

lemma filter_zip_snd_length:
  "length is = length ds \<Longrightarrow>
   length (filter (\<lambda>(idx, dd). P dd) (zip is ds)) = length (filter P ds)"
  by (induction "is" ds rule: list_induct2) simp_all

lemma daily_indices_of_length:
  "length (daily_indices_of daily_dates target_dates)
     = length (filter (\<lambda>dd. dd \<in> set target_dates) daily_dates)"
  by (simp add: daily_indices_of_def filter_zip_snd_length)

lemma distinct_source_fits_target:
  assumes "distinct daily_dates"
  shows "length (daily_indices_of daily_dates target_dates) \<le> length target_dates"
proof -
  let ?m = "filter (\<lambda>dd. dd \<in> set target_dates) daily_dates"
  have "distinct ?m" using assms by simp
  then have "card (set ?m) = length ?m" by (rule distinct_card)
  moreover have "card (set ?m) \<le> card (set target_dates)"
    by (rule card_mono) auto
  moreover have "card (set target_dates) \<le> length target_dates" by (rule card_length)
  ultimately show ?thesis by (simp add: daily_indices_of_length)
qed

lemma matched_source_dates:
  "map (\<lambda>k. daily_dates ! k) (daily_indices_of daily_dates target_dates)
     = filter (\<lambda>dd. dd \<in> set target_dates) daily_dates"
proof -
  have "map (\<lambda>k. ds ! k) (map fst (filter (\<lambda>(idx, dd). P dd) (zip [0..<length ds] ds))) = filter P ds"
    for ds :: "string list" and P
  proof (induction ds rule: rev_induct)
    case Nil
    then show ?case by simp
  next
    case (snoc d ds)
    have z: "zip [0..<length (ds @ [d])] (ds @ [d]) = zip [0..<length ds] ds @ [(length ds, d)]"
      by simp
    have "map (\<lambda>k. (ds @ [d]) ! k) (map fst (filter (\<lambda>(idx, dd). P dd) (zip [0..<length ds] ds)))
        = map (\<lambda>k. ds ! k) (map fst (filter (\<lambda>(idx, dd). P dd) (zip [0..<length ds] ds)))"
      by (auto simp: nth_append dest!: set_zip_leftD)
    with snoc.IH show ?case
      unfolding z by simp
  qed
  then show ?thesis by (simp add: daily_indices_of_def)
qed

lemma distinct_source_normal_return:
  assumes d: "distinct daily_dates"
    and ok: "match_data to_float conv daily_dates daily_returns target_dates = Inr (misses, dates, returns)"
  shows "length dates = length target_dates \<and> length returns = length target_dates \<and> misses = []"
proof -
  let ?m = "filter (\<lambda>dd. dd \<in> set target_dates) daily_dates"
  from match_data_lengths [OF ok]
  have len: "length dates = length ?m" "length returns = length ?m"
    and ge: "length target_dates \<le> length ?m"
    and mis: "misses = misses_of daily_dates target_dates"
    by (simp_all add: daily_indices_of_length)
  from distinct_source_fits_target [OF d, of target_dates]
  have le: "length ?m \<le> length target_dates" by (simp add: daily_indices_of_length)
  have "distinct ?m" using d by simp
  then have cm: "card (set ?m) = length ?m" by (rule distinct_card)
  have sub: "set ?m \<subseteq> set target_dates" by auto
  have "card (set target_dates) \<le> length target_dates" by (rule card_length)
  with cm ge le have "card (set target_dates) \<le> card (set ?m)" by simp
  with sub have "set ?m = set target_dates"
    by (simp add: card_seteq)
  have "misses_of daily_dates target_dates
      = filter (\<lambda>item. item \<notin> set (filter (\<lambda>item. item \<in> set target_dates) ?m)) target_dates"
    unfolding misses_of_def Let_def matched_source_dates ..
  also have "filter (\<lambda>item. item \<in> set target_dates) ?m = ?m" by simp
  also have "filter (\<lambda>item. item \<notin> set ?m) target_dates = []"
    unfolding \<open>set ?m = set target_dates\<close> by simp
  finally have "misses_of daily_dates target_dates = []" .
  with len ge le mis show ?thesis by simp
qed


text \<open>
  Claim C2. The claim says that the two arrays of a normal return are as long as the
  target list. Line 80 allocates them with one slot for each source position whose date
  is a target date, not one for each target date, and that is the length they keep
  (\<open>match_data_lengths\<close>). With a source that lists one date twice, the call returns
  arrays longer than the target list: here two slots for one target date, the second slot
  left at zero. (A source of distinct dates returns normally only when no target date is
  missed, \<open>distinct_source_normal_return\<close>: a gap ends in IndexError, as in claim C3.)
\<close>

theorem repeated_source_date_outgrows_target:
  "match_data float_of_decimal Some [''20200101'', ''20200101''] [1, 2] [''20200101'']
     = Inr ([], [20200101, 0], [1, 0]) \<and>
   length [20200101, 0 :: real] \<noteq> length [''20200101'']"
  by (simp add: match_data_def daily_indices_of_def misses_of_def match_step_def assign_matched_def
      np_setitem_def py_get_def upt_rec float_of_decimal_20200101)

text \<open>
  Claim C3. The claim says that the call returns the misses \<^verbatim>\<open>["20200102"]\<close> and the
  values \<^verbatim>\<open>[10,12,12]\<close>. The arrays have two slots, one for each of the two matched
  source positions; the third round of the loop stores at position 2 and raises
  IndexError. The call fails whatever the conversion of the date strings is.
\<close>

theorem gap_in_source_raises_IndexError:
  "match_data float_of_decimal Some [''20200101'', ''20200103''] [10, 12]
     [''20200101'', ''20200102'', ''20200103''] = Inl IndexError \<and>
   isl (match_data to_float Some [''20200101'', ''20200103''] [10, 12]
     [''20200101'', ''20200102'', ''20200103''])"
proof
  show "match_data float_of_decimal Some [''20200101'', ''20200103''] [10, 12]
     [''20200101'', ''20200102'', ''20200103''] = Inl IndexError"
    by (simp add: match_data_def daily_indices_of_def misses_of_def match_step_def
        assign_matched_def np_setitem_def py_get_def upt_rec float_of_decimal_20200101
        float_of_decimal_20200103)
  show "isl (match_data to_float Some [''20200101'', ''20200103''] [10, 12]
     [''20200101'', ''20200102'', ''20200103''])"
    by (simp add: match_data_def daily_indices_of_def misses_of_def match_step_def
        assign_matched_def np_setitem_def py_get_def upt_rec split: option.splits)
qed

subsection \<open>The pipeline\<close>

lemma line_147_always_true: "is_returns_or_premiums same"
  by (cases same) (simp_all add: is_returns_or_premiums_def py_or_def)

lemma set_output_type_converts:
  "set_output_type to_float output_type input_data =
     bind_err (prices_to_returns to_float input_data) (\<lambda>r. Inr (Floats r))"
  by (simp add: set_output_type_def line_147_always_true)

lemma process_input_writes:
  assumes "process_input to_float w save_mat input_sep target_data RF (ws, out_mat) input_tuple = (ws', r)"
  shows "ws' = ws \<or> (\<exists>path X. ws' = ws @ [SaveTxt path X])"
  using assms
  by (auto simp: process_input_def Let_def split: sum.splits if_splits)

lemma process_input_out_mat:
  assumes "process_input to_float w True input_sep target_data RF (ws, out_mat) input_tuple = (ws', Inr out_mat')"
  shows "out_mat' \<noteq> None"
  using assms
  by (auto simp: process_input_def Let_def bind_err_eq_Inr split: sum.splits if_splits option.splits)

lemma process_inputs_no_mat:
  assumes "process_inputs to_float w save_mat input_sep target_data RF (ws, out_mat) input_list = (ws', r)"
    and "\<not> list_ex is_SaveMat ws"
  shows "\<not> list_ex is_SaveMat ws'"
  using assms
proof (induction input_list arbitrary: ws out_mat)
  case Nil
  then show ?case by simp
next
  case (Cons input_tuple input_list)
  obtain ws1 r1 where step:
    "process_input to_float w save_mat input_sep target_data RF (ws, out_mat) input_tuple = (ws1, r1)"
    by (cases "process_input to_float w save_mat input_sep target_data RF (ws, out_mat) input_tuple")
  from process_input_writes [OF step] Cons.prems(2) have clean: "\<not> list_ex is_SaveMat ws1"
    by auto
  show ?case
  proof (cases r1)
    case (Inl e)
    with step Cons.prems(1) have "ws' = ws1" by simp
    with clean show ?thesis by simp
  next
    case (Inr out_mat1)
    with step Cons.prems(1)
    have "process_inputs to_float w save_mat input_sep target_data RF (ws1, out_mat1) input_list = (ws', r)"
      by simp
    from Cons.IH [OF this clean] show ?thesis .
  qed
qed

lemma process_inputs_out_mat:
  assumes "process_inputs to_float w True input_sep target_data RF (ws, out_mat) input_list = (ws', Inr out_mat')"
    and "input_list \<noteq> [] \<or> out_mat \<noteq> None"
  shows "out_mat' \<noteq> None"
  using assms
proof (induction input_list arbitrary: ws out_mat)
  case Nil
  then show ?case by simp
next
  case (Cons input_tuple input_list)
  obtain ws1 r1 where step:
    "process_input to_float w True input_sep target_data RF (ws, out_mat) input_tuple = (ws1, r1)"
    by (cases "process_input to_float w True input_sep target_data RF (ws, out_mat) input_tuple")
  show ?case
  proof (cases r1)
    case (Inl e)
    with step Cons.prems(1) show ?thesis by simp
  next
    case (Inr out_mat1)
    with step have "out_mat1 \<noteq> None" by (auto dest: process_input_out_mat)
    moreover from Inr step Cons.prems(1)
    have "process_inputs to_float w True input_sep target_data RF (ws1, out_mat1) input_list
        = (ws', Inr out_mat')"
      by simp
    ultimately show ?thesis using Cons.IH by blast
  qed
qed

subsection \<open>Premiums\<close>

lemma np_floats_column:
  assumes "map to_float column = map Some risk_free"
  shows "np_floats to_float (map (\<lambda>s. [s]) column) =
           Inr (if column = [] then A1 [] else A2 (map (\<lambda>x. [x]) risk_free))"
proof -
  have "comprehend (astype_float to_float) (map (\<lambda>s. [s]) column) = Inr (map (\<lambda>x. [x]) risk_free)"
    using assms
  proof (induction column arbitrary: risk_free)
    case Nil
    then show ?case by simp
  next
    case (Cons s column)
    then obtain x xs where rf: "risk_free = x # xs" "to_float s = Some x" "map to_float column = map Some xs"
      by (cases risk_free) auto
    from Cons.IH [OF rf(3)] rf(1,2) show ?case
      by (simp add: astype_float_def)
  qed
  then show ?thesis
    by (cases column) (simp_all add: np_floats_def list_all_iff)
qed

lemma np_sub_vectors:
  assumes "length v = length m"
  shows "np_binop f (A1 m) (A1 v) = Inr (A1 (map (\<lambda>i. f (m ! i) (v ! i)) [0..<length m]))"
proof -
  have "map (\<lambda>j. f (bcast_at (A1 m) 0 j) (bcast_at (A1 v) 0 j)) [0..<length m]
      = map (\<lambda>i. f (m ! i) (v ! i)) [0..<length m]"
    using assms by (auto simp: bcast_at_def)
  then show ?thesis
    using assms by (simp add: np_binop_def dims_def bdim_def ndim_def Let_def)
qed

lemma np_sub_scalar:
  "np_binop f (A1 [a]) (A0 x) = Inr (A1 [f a x])"
  by (simp add: np_binop_def dims_def bdim_def ndim_def bcast_at_def Let_def)

lemma to_premiums_column:
  assumes col: "map to_float column = map Some risk_free"
    and len: "length risk_free = length matched"
  shows "to_premiums to_float matched (map (\<lambda>s. [s]) column) =
           Inr (A1 (map (\<lambda>i. matched ! i - risk_free ! i / 1200) [0..<length matched]))"
proof -
  have lc: "length column = length risk_free" using col by (metis length_map)
  consider (empty) "risk_free = []" | (one) x where "risk_free = [x]"
    | (more) "2 \<le> length risk_free"
    by (cases risk_free; cases "tl risk_free") auto
  then show ?thesis
  proof cases
    case empty
    with lc len have "column = []" "matched = []" by auto
    then show ?thesis
      by (simp add: to_premiums_def np_floats_def np_squeeze_def np_scale_def np_binop_def
          dims_def bdim_def ndim_def Let_def)
  next
    case (one x)
    with len obtain a where m: "matched = [a]" by (cases matched) auto
    from one lc have "column \<noteq> []" by auto
    with np_floats_column [OF col] one
    have "np_floats to_float (map (\<lambda>s. [s]) column) = Inr (A2 [[x]])" by simp
    then show ?thesis
      by (simp add: to_premiums_def np_squeeze_def dims_def np_scale_def np_sub_scalar m one)
  next
    case more
    with lc have "column \<noteq> []" by auto
    with np_floats_column [OF col]
    have "np_floats to_float (map (\<lambda>s. [s]) column) = Inr (A2 (map (\<lambda>x. [x]) risk_free))" by simp
    moreover have "np_squeeze (A2 (map (\<lambda>x. [x]) risk_free)) = A1 risk_free"
      using more by (cases risk_free) (auto simp: np_squeeze_def dims_def comp_def)
    ultimately show ?thesis
      using len by (simp add: to_premiums_def np_scale_def np_sub_vectors)
  qed
qed


subsection \<open>The sample world, stage by stage\<close>

lemma sample_target:
  "load_text (files sample_world ws) ''FF.txt'' None 3 (Some 1) =
     Inr (Some [''date'', ''p1'', ''p2''],
          sample_target_data)"
  by (simp add: sample_world_def load_text_def split_row_def py_strip_def py_isspace_def
      py_split_ws_def py_index_def py_get_def py_slice_from_def sample_target_data_def)

lemma sample_input:
  "load_text (files sample_world ws) ''raw/a.csv'' (Some '','') 1 (Some 0) =
     Inr (Some [''Date'' @ CHR 0x09 # ''Open'' @ CHR 0x09 # ''High'' @ CHR 0x09 # ''Low'' @ CHR 0x09 # ''Close''],
          sample_rows)"
  by (simp add: sample_world_def load_text_def split_row_def py_strip_def py_isspace_def
      split_sep.simps py_index_def py_get_def py_slice_from_def sample_rows_def)


lemma float_of_decimal_20200102: "float_of_decimal ''20200102'' = Some 20200102"
  by (simp add: float_of_decimal_def unsigned_decimal_def py_strip_def py_isspace_def
      is_digit_def digits_value_def)

lemma sample_dates:
  "get_dates_yahoo
     sample_rows
     ''chronological'' = Inr ([''20200101'', ''20200102'', ''20200103''], [''10'', ''11'', ''12''])"
  by (simp add: get_dates_yahoo_def yahoo_parse_def py_get_def date_key_def split_sep.simps tab_def
      sample_rows_def)

lemma sample_returns:
  "prices_to_returns float_of_decimal [''10'', ''11'', ''12''] = Inr [1 / 10, 1 / 11]"
  by (simp add: prices_to_returns_def astype_float_def float_of_decimal_def unsigned_decimal_def
      py_strip_def py_isspace_def is_digit_def digits_value_def upt_rec)

lemma sample_match:
  "match_data float_of_decimal Some [''20200101'', ''20200102'', ''20200103''] [1 / 10, 1 / 11]
     [''20200101'', ''20200102''] = Inr ([], [20200101, 20200102], [1 / 10, 1 / 11])"
  by (simp add: match_data_def daily_indices_of_def misses_of_def match_step_def assign_matched_def
      np_setitem_def py_get_def upt_rec float_of_decimal_20200101 float_of_decimal_20200102)

lemma sample_target_dates:
  "comprehend (\<lambda>td. py_get td 0) sample_target_data = Inr [''20200101'', ''20200102'']"
  by (simp add: sample_target_data_def py_get_def)

lemma sample_matched_input:
  "matched_input float_of_decimal (files sample_world ws) (Some '','')
     sample_target_data
     (''raw/a.csv'', output_type) = Inr [1 / 10, 1 / 11]"
  by (simp add: matched_input_def sample_input sample_dates set_output_type_converts sample_returns
      match_series_def sample_match sample_target_dates)

lemma sample_outfile:
  "outfile_of sample_world ''prices'' ''raw/a.csv'' = ''/home/u/prices/a_returns.csv''"
  by (simp add: outfile_of_def path_join_def sample_world_def split_sep.simps)


lemma sample_risk_free:
  "load_text (files sample_world ws) ''rf.csv'' (Some '','') 0 None = Inr (None, [[''12''], [''24'']])"
  by (simp add: sample_world_def load_text_def split_row_def py_strip_def py_isspace_def
      split_sep.simps py_slice_from_def)

lemma sample_target_data_out:
  "load_risk_free float_of_decimal (files sample_world []) (Some '','') sample_target_data ''rf.csv''
   = Inr ([[''12''], [''24'']],
          A2 [[299 / 100, 99 / 100, 199 / 100, 299 / 100, 899 / 100, 299 / 100],
              [99 / 50, 399 / 50, 49 / 50, 399 / 50, 449 / 50, 249 / 50]])"
  by (simp add: load_risk_free_def sample_risk_free sample_target_data_def np_floats_def
      astype_float_def float_of_decimal_def unsigned_decimal_def py_strip_def py_isspace_def
      is_digit_def digits_value_def np_scale_def np_binop_def dims_def bdim_def ndim_def
      bcast_at_def np_take_cols_def upt_rec)


lemma sample_risk_free_floats: "map float_of_decimal [''12'', ''24''] = map Some [12, 24]"
  by (simp add: float_of_decimal_def unsigned_decimal_def py_strip_def py_isspace_def
      is_digit_def digits_value_def)

lemma sample_loop:
  "process_inputs float_of_decimal sample_world True (Some '','') sample_target_data None ([], None)
     [(''raw/a.csv'', ''prices'')]
   = ([SaveTxt ''/home/u/prices/a_returns.csv'' (A1 [1 / 10, 1 / 11])], Inr (Some (A1 [1 / 10, 1 / 11])))"
  by (simp add: process_input_def sample_matched_input sample_outfile) (simp add: sample_world_def)

lemma sample_premiums:
  "to_premiums float_of_decimal [1 / 10, 1 / 11] [[''12''], [''24'']] = Inr (A1 [9 / 100, 39 / 550])"
  using to_premiums_column [OF sample_risk_free_floats, of "[1 / 10, 1 / 11]"]
  by (simp add: upt_rec)

lemma sample_run_premiums:
  "match_dates_and_save float_of_decimal sample_world [(''raw/a.csv'', ''premiums'')] ''FF.txt''
     ''chronological'' True (Some '','') None (Some ''rf.csv'')
   = ([SaveTxt ''/home/u/premiums/a_returns.csv'' (A1 [9 / 100, 39 / 550]),
       SaveMat ''/home/u/matfiles/All_variables_matched.mat'' (A1 [9 / 100, 39 / 550])
         (A2 [[299 / 100, 99 / 100, 199 / 100, 299 / 100, 899 / 100, 299 / 100],
              [99 / 50, 399 / 50, 49 / 50, 399 / 50, 449 / 50, 249 / 50]])],
      None)"
proof -
  have out: "outfile_of sample_world ''premiums'' ''raw/a.csv'' = ''/home/u/premiums/a_returns.csv''"
    by (simp add: outfile_of_def path_join_def sample_world_def split_sep.simps)
  have loop: "process_inputs float_of_decimal sample_world True (Some '','') sample_target_data
      (Some [[''12''], [''24'']]) ([], None) [(''raw/a.csv'', ''premiums'')]
    = ([SaveTxt ''/home/u/premiums/a_returns.csv'' (A1 [9 / 100, 39 / 550])],
       Inr (Some (A1 [9 / 100, 39 / 550])))"
    by (simp add: process_input_def sample_matched_input sample_premiums out)
       (simp add: sample_world_def)
  show ?thesis
    by (simp add: match_dates_and_save_def sample_target sample_target_data_out loop save_all_def
        np_T_def path_join_def del: process_inputs.simps)
       (simp add: sample_world_def)
qed

subsection \<open>The claims about the pipeline\<close>

text \<open>
  Claim C1. The claim says that a tuple whose output type is \<^verbatim>\<open>"prices"\<close> is written
  without the conversion to returns. The test of line 147 is true for every output type
  (\<open>line_147_always_true\<close>), so line 149 converts every series. In the sample world the
  prices 10, 11, 12 of the tuple \<^verbatim>\<open>('raw/a.csv', 'prices')\<close> become the returns
  \<open>1/10\<close> and \<open>1/11\<close>, and these are what the run writes under \<^verbatim>\<open>prices/\<close>.
\<close>

theorem prices_are_written_as_returns:
  "set_output_type float_of_decimal ''prices'' [''10'', ''11'', ''12''] = Inr (Floats [1 / 10, 1 / 11]) \<and>
   match_dates_and_save float_of_decimal sample_world [(''raw/a.csv'', ''prices'')] ''FF.txt''
     ''chronological'' False (Some '','') None None
   = ([SaveTxt ''/home/u/prices/a_returns.csv'' (A1 [1 / 10, 1 / 11])], None)"
proof
  show "set_output_type float_of_decimal ''prices'' [''10'', ''11'', ''12''] = Inr (Floats [1 / 10, 1 / 11])"
    by (simp add: set_output_type_converts sample_returns)
  show "match_dates_and_save float_of_decimal sample_world [(''raw/a.csv'', ''prices'')] ''FF.txt''
     ''chronological'' False (Some '','') None None
   = ([SaveTxt ''/home/u/prices/a_returns.csv'' (A1 [1 / 10, 1 / 11])], None)"
    by (simp add: match_dates_and_save_def sample_target process_input_def sample_matched_input
      sample_outfile) (simp add: sample_world_def)
qed



text \<open>
  Claim C10, as the claim states it, fails for the empty input list: the loop leaves
  \<^verbatim>\<open>out_mat\<close> at \<^verbatim>\<open>None\<close>, and line 181 evaluates \<^verbatim>\<open>out_mat.T\<close> before it
  reads \<^verbatim>\<open>target_data_out\<close>, so the run ends in AttributeError, which is no
  NameError.
\<close>

theorem empty_input_list_fails_on_out_mat:
  "match_dates_and_save float_of_decimal sample_world [] ''FF.txt'' ''chronological'' True
     (Some '','') None None = ([], Some AttributeError) \<and>
   \<not> is_NameError AttributeError"
  by (simp add: match_dates_and_save_def sample_target save_all_def is_NameError_def)

text \<open>
  Claim C10, amended. A run with \<^verbatim>\<open>save_mat=True\<close> and no risk-free path never
  runs to its end and never writes the \<^verbatim>\<open>.mat\<close> file. When the target file loads
  and the loop has processed every tuple of the input list, the run fails at the final
  save: with UnboundLocalError (a NameError) for \<^verbatim>\<open>target_data_out\<close> when the
  list has a tuple, with AttributeError when it has none; the writes are those of the
  loop.
\<close>

theorem save_mat_without_risk_free_fails:
  assumes "match_dates_and_save to_float w input_list target_path order True input_sep target_sep None
             = (ws, r)"
  shows "r \<noteq> None \<and> \<not> list_ex is_SaveMat ws \<and>
         (\<forall>target_header target_data ws' out_mat.
            load_text (files w []) target_path target_sep 3 (Some 1) = Inr (target_header, target_data) \<and>
            process_inputs to_float w True input_sep target_data None ([], None) input_list
              = (ws', Inr out_mat)
            \<longrightarrow> ws = ws' \<and>
                (if input_list = [] then r = Some AttributeError
                 else r = Some UnboundLocalError \<and> is_NameError UnboundLocalError))"
proof (cases "load_text (files w []) target_path target_sep 3 (Some 1)")
  case (Inl e)
  with assms show ?thesis by (auto simp: match_dates_and_save_def)
next
  case (Inr loaded)
  obtain target_header target_data where loaded: "loaded = (target_header, target_data)"
    by (cases loaded)
  obtain ws1 r1 where loop:
    "process_inputs to_float w True input_sep target_data None ([], None) input_list = (ws1, r1)"
    by (cases "process_inputs to_float w True input_sep target_data None ([], None) input_list")
  from process_inputs_no_mat [OF loop] have clean: "\<not> list_ex is_SaveMat ws1" by simp
  show ?thesis
  proof (cases r1)
    case (Inl e)
    with assms Inr loaded loop have "ws = ws1" "r = Some e"
      by (auto simp: match_dates_and_save_def)
    with clean Inr loaded loop Inl show ?thesis by auto
  next
    case out: (Inr out_mat)
    show ?thesis
    proof (cases "input_list = []")
      case True
      with loop out have "out_mat = None" "ws1 = []" by auto
      with assms Inr loaded loop out have "ws = ws1" "r = Some AttributeError"
        by (auto simp: match_dates_and_save_def save_all_def)
      with clean Inr loaded loop out True show ?thesis by auto
    next
      case False
      with process_inputs_out_mat [OF loop [unfolded out]] obtain m where "out_mat = Some m"
        by auto
      with assms Inr loaded loop out have "ws = ws1" "r = Some UnboundLocalError"
        by (auto simp: match_dates_and_save_def save_all_def)
      with clean Inr loaded loop out False show ?thesis by (auto simp: is_NameError_def)
    qed
  qed
qed


theorem save_mat_without_risk_free_fails_witness:
  "load_text (files sample_world []) ''FF.txt'' None 3 (Some 1)
     = Inr (Some [''date'', ''p1'', ''p2''], sample_target_data) \<and>
   process_inputs float_of_decimal sample_world True (Some '','') sample_target_data None ([], None)
     [(''raw/a.csv'', ''prices'')]
     = ([SaveTxt ''/home/u/prices/a_returns.csv'' (A1 [1 / 10, 1 / 11])],
        Inr (Some (A1 [1 / 10, 1 / 11]))) \<and>
   match_dates_and_save float_of_decimal sample_world [(''raw/a.csv'', ''prices'')] ''FF.txt''
     ''chronological'' True (Some '','') None None
     = ([SaveTxt ''/home/u/prices/a_returns.csv'' (A1 [1 / 10, 1 / 11])], Some UnboundLocalError)"
proof -
  obtain ws r where run:
    "match_dates_and_save float_of_decimal sample_world [(''raw/a.csv'', ''prices'')] ''FF.txt''
       ''chronological'' True (Some '','') None None = (ws, r)"
    by (cases "match_dates_and_save float_of_decimal sample_world [(''raw/a.csv'', ''prices'')]
       ''FF.txt'' ''chronological'' True (Some '','') None None")
  from save_mat_without_risk_free_fails [OF run] sample_target [of "[]"] sample_loop
  have "ws = [SaveTxt ''/home/u/prices/a_returns.csv'' (A1 [1 / 10, 1 / 11])]"
    and "r = Some UnboundLocalError"
    by auto
  with run sample_target [of "[]"] sample_loop show ?thesis by simp
qed


end
